theory Spec2Isabelle
  imports Main "HOL-Library.AList" "HOL-Library.Sublist"
begin

section \<open>Python values and strings\<close>

text \<open>
  A Python \<open>str\<close> is modelled as a \<open>string\<close> holding its UTF-8 bytes. Every string that the
  notebook upper-cases or capitalises (statistic codes, class labels, titles) has its letters
  in ASCII, so the case functions below map the ASCII letters and leave every other byte as
  it is; the only non-ASCII character of the notebook is the Greek letter mu of the units and
  of one title, which \<open>str.lower\<close> leaves unchanged as well.
\<close>

datatype error =
    KeyError "string list"   \<comment> \<open>a dict lookup or a frame column selection that misses\<close>
  | FormatError              \<comment> \<open>\<open>str.format\<close> raises, whatever the class of its exception\<close>
  | AssertionError

datatype pyval = PNone | PBool bool | PInt int | PStr string | PList "pyval list"

fun truthy :: "pyval \<Rightarrow> bool" where
  "truthy PNone = False"
| "truthy (PBool b) = b"
| "truthy (PInt i) = (i \<noteq> 0)"
| "truthy (PStr s) = (s \<noteq> [])"
| "truthy (PList xs) = (xs \<noteq> [])"

definition py_or :: "pyval \<Rightarrow> pyval \<Rightarrow> pyval" where
  "py_or x y = (if truthy x then x else y)"

definition dict_get :: "(string \<rightharpoonup> pyval) \<Rightarrow> string \<Rightarrow> pyval" where
  "dict_get d k = (case d k of None \<Rightarrow> PNone | Some v \<Rightarrow> v)"

definition getitem :: "(string \<times> 'a) list \<Rightarrow> string \<Rightarrow> error + 'a" where
  "getitem d k = (case map_of d k of None \<Rightarrow> Inl (KeyError [k]) | Some v \<Rightarrow> Inr v)"

definition ascii_lowercase :: string where
  "ascii_lowercase = ''abcdefghijklmnopqrstuvwxyz''"

definition ascii_uppercase :: string where
  "ascii_uppercase = ''ABCDEFGHIJKLMNOPQRSTUVWXYZ''"

definition upper_char :: "char \<Rightarrow> char" where
  "upper_char c =
     (case map_of (zip ascii_lowercase ascii_uppercase) c of None \<Rightarrow> c | Some u \<Rightarrow> u)"

definition lower_char :: "char \<Rightarrow> char" where
  "lower_char c =
     (case map_of (zip ascii_uppercase ascii_lowercase) c of None \<Rightarrow> c | Some l \<Rightarrow> l)"

definition upper :: "string \<Rightarrow> string" where
  "upper s = map upper_char s"

definition lower :: "string \<Rightarrow> string" where
  "lower s = map lower_char s"

text \<open>\<open>s.replace(old, new)\<close> for one-character \<open>old\<close> and \<open>new\<close>, the only use in the notebook.\<close>

definition replace :: "'a \<Rightarrow> 'a \<Rightarrow> 'a list \<Rightarrow> 'a list" where
  "replace old new s = map (\<lambda>c. if c = old then new else c) s"

text \<open>\<open>s.capitalize()\<close>: the first character upper-cased, the others lower-cased.\<close>

fun capitalize :: "string \<Rightarrow> string" where
  "capitalize [] = []"
| "capitalize (c # cs) = upper_char c # lower cs"

text \<open>\<open>str(n)\<close> for a Python integer.\<close>

fun str_nat :: "nat \<Rightarrow> string" where
  "str_nat n =
     (if n < 10 then [''0123456789'' ! n]
      else str_nat (n div 10) @ [''0123456789'' ! (n mod 10)])"

declare str_nat.simps [simp del]

definition str_int :: "int \<Rightarrow> string" where
  "str_int i = (if i < 0 then CHR ''-'' # str_nat (nat (- i)) else str_nat (nat i))"

text \<open>
  \<open>template.format(*args)\<close> with positional arguments: \<open>{}\<close> takes the next argument, \<open>{{\<close>
  and \<open>}}\<close> are the escaped braces. Python raises on a single brace (ValueError) and on a
  \<open>{}\<close> with no argument left (IndexError). The templates of the notebook carry one \<open>{}\<close> of
  their own and receive one argument, so that any further field a caller's text could add
  (numbered, named, with a conversion or a format specification) makes Python raise too, a
  ValueError, an IndexError or a KeyError. The model returns FormatError in all these cases:
  it tells that \<open>format\<close> raises, not which exception.
\<close>

fun str_format :: "string \<Rightarrow> string list \<Rightarrow> error + string" where
  "str_format [] args = Inr []"
| "str_format (c # cs) args =
     (if c = CHR ''{'' then
        (case cs of
           [] \<Rightarrow> Inl FormatError
         | d # r \<Rightarrow>
             if d = CHR ''{'' then map_sum id ((#) CHR ''{'') (str_format r args)
             else if d = CHR ''}'' then
               (case args of
                  [] \<Rightarrow> Inl FormatError
                | a # as \<Rightarrow> map_sum id ((@) a) (str_format r as))
             else Inl FormatError)
      else if c = CHR ''}'' then
        (case cs of
           [] \<Rightarrow> Inl FormatError
         | d # r \<Rightarrow>
             if d = CHR ''}'' then map_sum id ((#) CHR ''}'') (str_format r args)
             else Inl FormatError)
      else map_sum id ((#) c) (str_format cs args))"

section \<open>The notebook's catalogs\<close>

record statistic =
  name :: string
  unit :: "string option"

text \<open>The Greek small letter mu (U+03BC) in UTF-8.\<close>

definition mu :: string where
  "mu = [CHR 0xCE, CHR 0xBC]"

definition tissue_stat_dict :: "(string \<times> statistic) list" where
  "tissue_stat_dict =
     [(''AREA'', \<lparr>name = ''Area'', unit = Some (mu @ ''m<sup>2</sup>'')\<rparr>),
      (''REGION_COUNT'', \<lparr>name = ''Region count'', unit = None\<rparr>),
      (''LARGEST_FILLED_AREA'',
         \<lparr>name = ''Largest filled area'', unit = Some (mu @ ''m<sup>2</sup>'')\<rparr>),
      (''AVG_ECCENTRICITY'', \<lparr>name = ''Average eccentricity'', unit = None\<rparr>)]"

definition cell_stat_dict :: "(string \<times> statistic) list" where
  "cell_stat_dict =
     [(''CELL_PERC'', \<lparr>name = ''Percentage of total number of cells'', unit = Some ''%''\<rparr>),
      (''CELL_DENS'',
         \<lparr>name = ''Density of cells'', unit = Some (''cells/'' @ mu @ ''m<sup>2</sup>'')\<rparr>),
      (''CELL_COUNT'', \<lparr>name = ''Cell count'', unit = None\<rparr>)]"

definition neighborhood_stat_dict :: "(string \<times> statistic) list" where
  "neighborhood_stat_dict =
     [(''RATIO'', \<lparr>name = ''Ratio of cells'', unit = None\<rparr>),
      (''DENSITY'',
         \<lparr>name = ''Density of cells'', unit = Some (''cells/'' @ mu @ ''m<sup>2</sup>'')\<rparr>),
      (''AVG_MIN_DISTANCE'',
         \<lparr>name = ''Average minimum distance of cells'', unit = Some (mu @ ''m'')\<rparr>)]"

definition tissue_classes :: "string list" where
  "tissue_classes =
     [''Carcinoma'', ''Stroma'', ''Necrosis'', ''Blood'', ''Vessel'', ''Epithelial tissue'',
      ''Other'']"

definition cell_classes :: "string list" where
  "cell_classes =
     [''Carcinoma cell'', ''Lymphocyte'', ''Macrophage'', ''Granulocyte'', ''Plasma cell'',
      ''Epithelial cell'', ''Endothelial cell'', ''Fibroblast'', ''Other'']"

section \<open>Print mode and its presets\<close>

text \<open>\<open>print_mode = mo.cli_args().get("print") or True\<close>, on the parsed command line.\<close>

definition print_mode :: "(string \<rightharpoonup> pyval) \<Rightarrow> pyval" where
  "print_mode cli_args = py_or (dict_get cli_args ''print'') (PBool True)"

record tissue_kwargs =
  t_statistic :: string

record cell_kwargs =
  c_statistic :: string
  c_tissue_type :: string

record neighborhood_kwargs =
  n_cell_class_a :: string
  n_roi :: string
  n_statistic :: string
  n_radius :: int

record graph_settings =
  tissue :: "tissue_kwargs list"
  cell :: "cell_kwargs list"
  neighborhood :: "neighborhood_kwargs list"

definition print_mode_graph_settings :: graph_settings where
  "print_mode_graph_settings =
     \<lparr>tissue = [\<lparr>t_statistic = ''AREA''\<rparr>],
      cell =
        [\<lparr>c_statistic = ''CELL_PERC'', c_tissue_type = ''All tissue types''\<rparr>,
         \<lparr>c_statistic = ''CELL_DENS'', c_tissue_type = ''Carcinoma''\<rparr>,
         \<lparr>c_statistic = ''CELL_DENS'', c_tissue_type = ''Stroma''\<rparr>],
      neighborhood =
        concat (map (\<lambda>radius.
                  map (\<lambda>statistic.
                         \<lparr>n_cell_class_a = ''Carcinoma cell'', n_roi = ''Carcinoma'',
                          n_statistic = statistic, n_radius = radius\<rparr>)
                      (map fst neighborhood_stat_dict))
                [20, 40])\<rparr>"

section \<open>The readout table\<close>

text \<open>
  A data frame, column by column: the length of its index and, for every column in order,
  its label and its values.
\<close>

record 'v dataframe =
  index_len :: nat
  columns :: "(string \<times> 'v list) list"

definition len :: "'v dataframe \<Rightarrow> nat" where
  "len df = index_len df"

text \<open>\<open>df[keys]\<close>: the frame of the named columns, a KeyError naming the missing ones.\<close>

definition getitem_columns :: "'v dataframe \<Rightarrow> string list \<Rightarrow> error + 'v dataframe" where
  "getitem_columns df keys =
     (case filter (\<lambda>k. map_of (columns df) k = None) keys of
        [] \<Rightarrow>
          Inr (df\<lparr>columns :=
                 map (\<lambda>k. (k, case map_of (columns df) k of None \<Rightarrow> [] | Some v \<Rightarrow> v)) keys\<rparr>)
      | k # ks \<Rightarrow> Inl (KeyError (k # ks)))"

text \<open>\<open>df.rename(columns=m)\<close>: a label that is a key of \<open>m\<close> is replaced, the others stay.\<close>

definition rename :: "(string \<times> string) list \<Rightarrow> 'v dataframe \<Rightarrow> 'v dataframe" where
  "rename m df =
     df\<lparr>columns :=
          map (\<lambda>(k, v). (case map_of m k of None \<Rightarrow> k | Some l \<Rightarrow> l, v)) (columns df)\<rparr>"

text \<open>
  \<open>load_readouts_data\<close>, given the frame that \<open>pd.read_csv(readouts_path, skiprows=1)\<close>
  returned.
\<close>

definition load_readouts_data :: "'v dataframe \<Rightarrow> error + 'v dataframe" where
  "load_readouts_data df =
     (let n_initial = len df
      in if n_initial = len df then Inr df else Inl AssertionError)"

section \<open>Column names\<close>

definition to_allcaps :: "string \<Rightarrow> string" where
  "to_allcaps cls = replace CHR '' '' CHR ''_'' (upper cls)"

text \<open>
  A dict comprehension \<open>{key(cls): cls for cls in classes}\<close>, continuing from the dict \<open>d\<close>:
  a new key is appended, a key met again keeps its place and takes the later value.
\<close>

fun dict_comp ::
  "(string \<Rightarrow> error + string) \<Rightarrow> string list \<Rightarrow> (string \<times> string) list \<Rightarrow>
   error + (string \<times> string) list" where
  "dict_comp key [] d = Inr d"
| "dict_comp key (cls # rest) d =
     (case key cls of
        Inl e \<Rightarrow> Inl e
      | Inr k \<Rightarrow> dict_comp key rest (AList.update k cls d))"

text \<open>The first two statements of \<open>plot_tissue_areas\<close>, over the classes it closes over.\<close>

definition tissue_column_format :: "string \<Rightarrow> string" where
  "tissue_column_format statistic = statistic @ ''_{}''"

definition tissue_cols :: "string list \<Rightarrow> string \<Rightarrow> error + (string \<times> string) list" where
  "tissue_cols classes statistic =
     dict_comp (\<lambda>cls. str_format (tissue_column_format statistic) [to_allcaps cls]) classes []"

definition tissue_all :: string where
  "tissue_all = ''All tissue types''"

text \<open>The column format and the \<open>columns\<close> dict of \<open>plot_cell_stat\<close>.\<close>

definition cell_column_format :: "string \<Rightarrow> string \<Rightarrow> string" where
  "cell_column_format tissue_type statistic =
     (if tissue_type = tissue_all then statistic @ ''_{}''
      else statistic @ ''_{}_'' @ to_allcaps tissue_type)"

definition cell_columns ::
  "string list \<Rightarrow> string \<Rightarrow> string \<Rightarrow> error + (string \<times> string) list" where
  "cell_columns classes tissue_type statistic =
     dict_comp
       (\<lambda>cell_class. str_format (cell_column_format tissue_type statistic) [to_allcaps cell_class])
       classes []"

text \<open>The \<open>column\<close> template and the \<open>columns_to_labels\<close> dict of \<open>plot_neighborhood_stat\<close>.\<close>

definition neighborhood_column :: "string \<Rightarrow> string \<Rightarrow> string \<Rightarrow> int \<Rightarrow> string" where
  "neighborhood_column cell_class_a roi statistic radius =
     to_allcaps
       (statistic @ ''_OF_{}S_AROUND_'' @ cell_class_a @ ''_IN_'' @ roi @ ''_'' @ str_int radius)"

definition columns_to_labels ::
  "string list \<Rightarrow> string \<Rightarrow> string \<Rightarrow> string \<Rightarrow> int \<Rightarrow> error + (string \<times> string) list" where
  "columns_to_labels classes cell_class_a roi statistic radius =
     dict_comp
       (\<lambda>cell_class_b.
          map_sum id to_allcaps
            (str_format (neighborhood_column cell_class_a roi statistic radius) [cell_class_b]))
       classes []"

section \<open>Plots\<close>

text \<open>
  What \<open>plot_boxplot\<close> hands to the plotting library: the texts of the layout and the frame
  whose columns are the boxes. The reshape to long form and the drawing are the library's.
\<close>

record 'v figure =
  title :: string
  xaxis_title :: string
  yaxis_title :: string
  legend_title :: "string option"
  boxes :: "'v dataframe"

definition y_label :: "statistic \<Rightarrow> string" where
  "y_label stat =
     (let y_label = capitalize (name stat)
      in case unit stat of
           None \<Rightarrow> y_label
         | Some u \<Rightarrow> y_label @ '' ('' @ u @ '')'')"

text \<open>
  \<open>plot_boxplot\<close>, with the global \<open>plot_index\<close> passed in and returned. An absent or empty
  subtitle adds nothing to the title.
\<close>

definition plot_boxplot ::
  "pyval \<Rightarrow> 'v dataframe \<Rightarrow> string \<Rightarrow> statistic \<Rightarrow> string \<Rightarrow> string option \<Rightarrow>
   string option \<Rightarrow> int \<Rightarrow> 'v figure \<times> int" where
  "plot_boxplot pm df variable stat title0 color subtitle plot_index =
     (let title1 = capitalize (''Distribution of '' @ title0);
          title2 =
            (case subtitle of
               None \<Rightarrow> title1
             | Some s \<Rightarrow>
                 if s \<noteq> [] then title1 @ ''<br><sub>Data from column(s): '' @ s @ ''</sub>''
                 else title1);
          title3 = (if truthy pm then str_int plot_index @ ''. '' @ title2 else title2);
          plot_index' = (if truthy pm then plot_index + 1 else plot_index)
      in (\<lparr>title = title3,
           xaxis_title = capitalize variable,
           yaxis_title = y_label stat,
           legend_title = map_option capitalize color,
           boxes = df\<rparr>,
          plot_index'))"

definition plot_tissue_areas ::
  "pyval \<Rightarrow> 'v dataframe \<Rightarrow> string \<Rightarrow> int \<Rightarrow> error + 'v figure \<times> int" where
  "plot_tissue_areas pm df statistic plot_index =
     (case tissue_cols tissue_classes statistic of
        Inl e \<Rightarrow> Inl e
      | Inr cols \<Rightarrow>
          (case getitem_columns df (map fst cols) of
             Inl e \<Rightarrow> Inl e
           | Inr sub \<Rightarrow>
               (case getitem tissue_stat_dict statistic of
                  Inl e \<Rightarrow> Inl e
                | Inr stat \<Rightarrow>
                    Inr (plot_boxplot pm (rename cols sub) ''tissue type'' stat
                           (name stat @ '' of a specific tissue type per slide'') None
                           (Some (tissue_column_format statistic)) plot_index))))"

definition cell_title :: "statistic \<Rightarrow> string \<Rightarrow> string" where
  "cell_title stat tissue_type =
     (if tissue_type = tissue_all then name stat @ '' of a specific class per slide''
      else name stat @ '' of a specific class within '' @ tissue_type @ '' area per slide'')"

definition plot_cell_stat ::
  "pyval \<Rightarrow> 'v dataframe \<Rightarrow> string \<Rightarrow> string \<Rightarrow> int \<Rightarrow> error + 'v figure \<times> int" where
  "plot_cell_stat pm df tissue_type statistic plot_index =
     (case getitem cell_stat_dict statistic of
        Inl e \<Rightarrow> Inl e
      | Inr stat \<Rightarrow>
          (case cell_columns cell_classes tissue_type statistic of
             Inl e \<Rightarrow> Inl e
           | Inr cols \<Rightarrow>
               (case getitem_columns df (map fst cols) of
                  Inl e \<Rightarrow> Inl e
                | Inr sub \<Rightarrow>
                    Inr (plot_boxplot pm (rename cols sub) ''cell class'' stat
                           (cell_title stat tissue_type) None
                           (Some (cell_column_format tissue_type statistic)) plot_index))))"

definition neighborhood_title :: "statistic \<Rightarrow> string \<Rightarrow> string \<Rightarrow> int \<Rightarrow> string" where
  "neighborhood_title stat cell_class_a roi radius =
     name stat @ '' of a specific class in a '' @ str_int radius @ '' '' @ mu @
     ''m radius of<br>'' @ cell_class_a @ ''s within '' @ roi @ '' area per slide''"

definition plot_neighborhood_stat ::
  "pyval \<Rightarrow> 'v dataframe \<Rightarrow> string \<Rightarrow> string \<Rightarrow> string \<Rightarrow> int \<Rightarrow> int \<Rightarrow>
   error + 'v figure \<times> int" where
  "plot_neighborhood_stat pm df cell_class_a roi statistic radius plot_index =
     (case getitem neighborhood_stat_dict statistic of
        Inl e \<Rightarrow> Inl e
      | Inr stat \<Rightarrow>
          (case columns_to_labels cell_classes cell_class_a roi statistic radius of
             Inl e \<Rightarrow> Inl e
           | Inr cols \<Rightarrow>
               (case getitem_columns df (map fst cols) of
                  Inl e \<Rightarrow> Inl e
                | Inr sub \<Rightarrow>
                    Inr (plot_boxplot pm (rename cols sub) ''cell class'' stat
                           (neighborhood_title stat cell_class_a roi radius) None
                           (Some (neighborhood_column cell_class_a roi statistic radius))
                           plot_index))))"

section \<open>Selection: dropdowns and presets\<close>

record ('o, 'a) dropdown =
  options :: 'o
  label :: string
  initial_value :: 'a

definition tissue_type_dropdown :: "(string set, string) dropdown" where
  "tissue_type_dropdown =
     \<lparr>options = set ([tissue_all] @ tissue_classes) - {''Necrosis'', ''Blood''},
      label = ''Select tissue type'',
      initial_value = tissue_all\<rparr>"

definition cell_class_a_dropdown :: "(string list, string) dropdown" where
  "cell_class_a_dropdown =
     \<lparr>options = cell_classes,
      label = ''Select cell class'',
      initial_value = (case cell_classes of [] \<Rightarrow> [] | c # _ \<Rightarrow> c)\<rparr>"

definition roi_dropdown :: "(string set, string) dropdown" where
  "roi_dropdown =
     \<lparr>options = set tissue_classes - {''Necrosis'', ''Blood''},
      label = ''Select tissue type'',
      initial_value = ''Carcinoma''\<rparr>"

definition radius_dropdown :: "(int list, int) dropdown" where
  "radius_dropdown =
     \<lparr>options = [20, 40], label = ''Select compute radius'', initial_value = 20\<rparr>"

text \<open>The values currently selected in the dropdowns.\<close>

record widgets =
  tissue_stat_value :: string
  tissue_type_value :: string
  cell_stat_value :: string
  cell_class_a_value :: string
  roi_value :: string
  nb_stat_value :: string
  radius_value :: int

datatype 'v element = plotly "'v figure" | vstack "'v figure list"


text \<open>
  A list comprehension \<open>[plot(**kwargs) for kwargs in settings]\<close>: the plots are made in
  order, each starting from the plot index the previous one left; the first exception ends it.
\<close>

fun plot_each ::
  "('k \<Rightarrow> int \<Rightarrow> error + 'v figure \<times> int) \<Rightarrow> 'k list \<Rightarrow> int \<Rightarrow>
   error + 'v figure list \<times> int" where
  "plot_each plot [] plot_index = Inr ([], plot_index)"
| "plot_each plot (kwargs # rest) plot_index =
     (case plot kwargs plot_index of
        Inl e \<Rightarrow> Inl e
      | Inr (fig, plot_index') \<Rightarrow>
          (case plot_each plot rest plot_index' of
             Inl e \<Rightarrow> Inl e
           | Inr (figs, plot_index'') \<Rightarrow> Inr (fig # figs, plot_index'')))"

definition display_tissue_graph ::
  "pyval \<Rightarrow> widgets \<Rightarrow> 'v dataframe \<Rightarrow> int \<Rightarrow> error + 'v element \<times> int" where
  "display_tissue_graph pm ws df plot_index =
     (if truthy pm then
        (case plot_each (\<lambda>kwargs. plot_tissue_areas pm df (t_statistic kwargs))
                (tissue print_mode_graph_settings) plot_index of
           Inl e \<Rightarrow> Inl e
         | Inr (figs, plot_index') \<Rightarrow> Inr (vstack figs, plot_index'))
      else
        (case plot_tissue_areas pm df (tissue_stat_value ws) plot_index of
           Inl e \<Rightarrow> Inl e
         | Inr (fig, plot_index') \<Rightarrow> Inr (plotly fig, plot_index')))"

definition display_cell_graphs ::
  "pyval \<Rightarrow> widgets \<Rightarrow> 'v dataframe \<Rightarrow> int \<Rightarrow> error + 'v element \<times> int" where
  "display_cell_graphs pm ws df plot_index =
     (if truthy pm then
        (case plot_each (\<lambda>kwargs. plot_cell_stat pm df (c_tissue_type kwargs) (c_statistic kwargs))
                (cell print_mode_graph_settings) plot_index of
           Inl e \<Rightarrow> Inl e
         | Inr (figs, plot_index') \<Rightarrow> Inr (vstack figs, plot_index'))
      else
        (case plot_cell_stat pm df (tissue_type_value ws) (cell_stat_value ws) plot_index of
           Inl e \<Rightarrow> Inl e
         | Inr (fig, plot_index') \<Rightarrow> Inr (plotly fig, plot_index')))"

definition display_neighbourbood_graphs ::
  "pyval \<Rightarrow> widgets \<Rightarrow> 'v dataframe \<Rightarrow> int \<Rightarrow> error + 'v element \<times> int" where
  "display_neighbourbood_graphs pm ws df plot_index =
     (if truthy pm then
        (case plot_each
                (\<lambda>kwargs. plot_neighborhood_stat pm df (n_cell_class_a kwargs) (n_roi kwargs)
                             (n_statistic kwargs) (n_radius kwargs))
                (neighborhood print_mode_graph_settings) plot_index of
           Inl e \<Rightarrow> Inl e
         | Inr (figs, plot_index') \<Rightarrow> Inr (vstack figs, plot_index'))
      else
        (case plot_neighborhood_stat pm df (cell_class_a_value ws) (roi_value ws)
                (nb_stat_value ws) (radius_value ws) plot_index of
           Inl e \<Rightarrow> Inl e
         | Inr (fig, plot_index') \<Rightarrow> Inr (plotly fig, plot_index')))"

text \<open>
  One run of the notebook: the flag is read, the table is loaded, and the three sections are
  rendered in the notebook's order, the plot index starting at 1 and passing from each section
  to the next. The run ends at the first exception.
\<close>

definition app_run ::
  "(string \<rightharpoonup> pyval) \<Rightarrow> widgets \<Rightarrow> 'v dataframe \<Rightarrow> error + 'v element list \<times> int" where
  "app_run cli_args ws csv =
     (let pm = print_mode cli_args
      in case load_readouts_data csv of
           Inl e \<Rightarrow> Inl e
         | Inr df \<Rightarrow>
             (case display_tissue_graph pm ws df 1 of
                Inl e \<Rightarrow> Inl e
              | Inr (tissue_out, i1) \<Rightarrow>
                  (case display_cell_graphs pm ws df i1 of
                     Inl e \<Rightarrow> Inl e
                   | Inr (cell_out, i2) \<Rightarrow>
                       (case display_neighbourbood_graphs pm ws df i2 of
                          Inl e \<Rightarrow> Inl e
                        | Inr (nb_out, i3) \<Rightarrow> Inr ([tissue_out, cell_out, nb_out], i3)))))"

section \<open>Notions used by the properties\<close>

text \<open>What \<open>to_allcaps\<close> does to one character.\<close>

definition allcaps_char :: "char \<Rightarrow> char" where
  "allcaps_char c = (if upper_char c = CHR '' '' then CHR ''_'' else upper_char c)"

text \<open>A text without braces adds no field and no escape to a template.\<close>

definition no_braces :: "string \<Rightarrow> bool" where
  "no_braces s = (CHR ''{'' \<notin> set s \<and> CHR ''}'' \<notin> set s)"

text \<open>
  A mapping from column names to labels that has the labels of \<open>classes\<close>, in order, as its
  values, no name twice and no label twice.
\<close>

definition one_name_per_label :: "string list \<Rightarrow> (string \<times> string) list \<Rightarrow> bool" where
  "one_name_per_label classes cols \<longleftrightarrow>
     map snd cols = classes \<and> distinct (map fst cols) \<and> distinct (map snd cols)"

text \<open>The statistic descriptors of the three catalogs.\<close>

definition catalog_statistics :: "statistic list" where
  "catalog_statistics = map snd (tissue_stat_dict @ cell_stat_dict @ neighborhood_stat_dict)"

text \<open>The labels of the columns of a frame.\<close>

definition labels :: "'v dataframe \<Rightarrow> string set" where
  "labels df = fst ` set (columns df)"



section \<open>Lemmas on strings, templates and dict comprehensions\<close>

lemma to_allcaps_map: "to_allcaps s = map allcaps_char s"
  by (simp add: to_allcaps_def replace_def upper_def allcaps_char_def)

lemma ascii_case_length: "length ascii_lowercase = length ascii_uppercase"
  by (simp add: ascii_lowercase_def ascii_uppercase_def)

lemma upper_char_fix: "c \<notin> set ascii_lowercase \<Longrightarrow> upper_char c = c"
  by (simp add: upper_char_def map_of_zip_is_None [OF ascii_case_length, THEN iffD2])

lemma upper_char_cases:
  "upper_char c = c \<or> (c \<in> set ascii_lowercase \<and> upper_char c \<in> set ascii_uppercase)"
proof (cases "map_of (zip ascii_lowercase ascii_uppercase) c")
  case None
  then show ?thesis by (simp add: upper_char_def)
next
  case (Some u)
  then have "(c, u) \<in> set (zip ascii_lowercase ascii_uppercase)"
    by (rule map_of_SomeD)
  then have "c \<in> set ascii_lowercase" and "u \<in> set ascii_uppercase"
    by (auto dest: set_zip_leftD set_zip_rightD)
  with Some show ?thesis by (simp add: upper_char_def)
qed

lemma upper_not_lower: "c \<in> set ascii_uppercase \<Longrightarrow> c \<notin> set ascii_lowercase"
  unfolding ascii_lowercase_def ascii_uppercase_def by auto

lemma upper_char_idem: "upper_char (upper_char c) = upper_char c"
  using upper_char_cases [of c] upper_char_fix [of "upper_char c"] upper_not_lower
  by auto

lemma upper_char_other:
  assumes "x \<notin> set ascii_lowercase" and "x \<notin> set ascii_uppercase"
  shows "upper_char c = x \<longleftrightarrow> c = x"
  using upper_char_cases [of c] upper_char_fix [of x] assms by auto

lemma not_letter:
  "CHR '' '' \<notin> set ascii_lowercase" "CHR '' '' \<notin> set ascii_uppercase"
  "CHR ''_'' \<notin> set ascii_lowercase" "CHR ''_'' \<notin> set ascii_uppercase"
  "CHR ''{'' \<notin> set ascii_lowercase" "CHR ''{'' \<notin> set ascii_uppercase"
  "CHR ''}'' \<notin> set ascii_lowercase" "CHR ''}'' \<notin> set ascii_uppercase"
  by (simp_all add: ascii_lowercase_def ascii_uppercase_def)

lemma allcaps_char_idem: "allcaps_char (allcaps_char c) = allcaps_char c"
  by (simp add: allcaps_char_def upper_char_idem upper_char_other not_letter)

lemma allcaps_char_lbrace: "allcaps_char c = CHR ''{'' \<longleftrightarrow> c = CHR ''{''"
  by (auto simp: allcaps_char_def upper_char_other not_letter)

lemma allcaps_char_rbrace: "allcaps_char c = CHR ''}'' \<longleftrightarrow> c = CHR ''}''"
  by (auto simp: allcaps_char_def upper_char_other not_letter)

lemma to_allcaps_idem: "to_allcaps (to_allcaps s) = to_allcaps s"
  by (simp add: to_allcaps_map allcaps_char_idem)

lemma str_format_map:
  assumes l: "\<And>c. f c = CHR ''{'' \<longleftrightarrow> c = CHR ''{''"
    and r: "\<And>c. f c = CHR ''}'' \<longleftrightarrow> c = CHR ''}''"
  shows "str_format (map f t) (map (map f) args) = map_sum id (map f) (str_format t args)"
proof (induction t args rule: str_format.induct)
  case (1 args)
  show ?case by simp
next
  case (2 c cs args)
  have fl: "f CHR ''{'' = CHR ''{''" and fr: "f CHR ''}'' = CHR ''}''"
    by (simp_all add: l r)
  show ?case
  proof (cases cs)
    case Nil
    then show ?thesis by (simp add: l r)
  next
    case (Cons d rest)
    show ?thesis
    proof (cases args)
      case Nil
      with Cons 2 show ?thesis
        by (simp add: l r fl fr sum.map_comp comp_def)
    next
      case (Cons a as)
      with \<open>cs = d # rest\<close> 2 show ?thesis
        by (simp add: l r fl fr sum.map_comp comp_def)
    qed
  qed
qed

lemma str_format_to_allcaps:
  "str_format (to_allcaps t) (map to_allcaps args) = map_sum id to_allcaps (str_format t args)"
  using str_format_map [of allcaps_char t args]
  by (simp add: to_allcaps_map [abs_def] allcaps_char_lbrace allcaps_char_rbrace)


lemma no_braces_append [simp]: "no_braces (p @ q) \<longleftrightarrow> no_braces p \<and> no_braces q"
  by (auto simp: no_braces_def)

lemma no_braces_Cons: "no_braces (c # q) \<longleftrightarrow> c \<noteq> CHR ''{'' \<and> c \<noteq> CHR ''}'' \<and> no_braces q"
  by (auto simp: no_braces_def)

lemma no_braces_Nil [simp]: "no_braces []"
  by (simp add: no_braces_def)

lemma fixed_char_image:
  assumes "\<And>c. f c = x \<longleftrightarrow> c = x"
  shows "x \<in> f ` A \<longleftrightarrow> x \<in> A"
proof -
  have "x \<in> f ` A \<longleftrightarrow> (\<exists>c\<in>A. f c = x)" by auto
  then show ?thesis by (simp add: assms)
qed

lemma no_braces_to_allcaps [simp]: "no_braces (to_allcaps s) \<longleftrightarrow> no_braces s"
  by (simp add: no_braces_def to_allcaps_map fixed_char_image allcaps_char_lbrace
      allcaps_char_rbrace)

lemma str_format_plain:
  "no_braces p \<Longrightarrow> str_format (p @ t) args = map_sum id ((@) p) (str_format t args)"
proof (induction p)
  case Nil
  show ?case by (simp add: sum.map_id0 id_def [symmetric] sum.map_id)
next
  case (Cons c p)
  then show ?case
    by (simp add: no_braces_Cons sum.map_comp comp_def)
qed

lemma str_format_no_field: "no_braces q \<Longrightarrow> str_format q args = Inr q"
  using str_format_plain [of q "[]" args] by simp

lemma str_format_field:
  "no_braces p \<Longrightarrow> no_braces q \<Longrightarrow> str_format (p @ ''{}'' @ q) [a] = Inr (p @ a @ q)"
  by (simp add: str_format_plain str_format_no_field)

lemma update_fresh: "k \<notin> fst ` set d \<Longrightarrow> AList.update k v d = d @ [(k, v)]"
  by (induction d) auto

lemma dict_comp_distinct:
  assumes "\<And>c. c \<in> set cs \<Longrightarrow> key c = Inr (f c)"
    and "distinct (map f cs)"
    and "f ` set cs \<inter> fst ` set d = {}"
  shows "dict_comp key cs d = Inr (d @ map (\<lambda>c. (f c, c)) cs)"
  using assms
proof (induction cs arbitrary: d)
  case Nil
  show ?case by simp
next
  case (Cons c cs)
  have fresh: "f c \<notin> fst ` set d" using Cons.prems(3) by auto
  have "dict_comp key cs (d @ [(f c, c)]) = Inr ((d @ [(f c, c)]) @ map (\<lambda>c. (f c, c)) cs)"
  proof (rule Cons.IH)
    show "\<And>x. x \<in> set cs \<Longrightarrow> key x = Inr (f x)" using Cons.prems(1) by simp
    show "distinct (map f cs)" using Cons.prems(2) by simp
    show "f ` set cs \<inter> fst ` set (d @ [(f c, c)]) = {}"
      using Cons.prems(2,3) by auto
  qed
  then show ?case
    using Cons.prems(1) [of c] fresh by (simp add: update_fresh)
qed

lemma dict_comp_entry:
  assumes "dict_comp key cs d = Inr cols" and "(k, l) \<in> set cols"
  shows "(k, l) \<in> set d \<or> key l = Inr k"
  using assms
proof (induction cs arbitrary: d)
  case Nil
  then show ?case by simp
next
  case (Cons c cs)
  from Cons.prems(1) obtain k' where k': "key c = Inr k'"
    and rest: "dict_comp key cs (AList.update k' c d) = Inr cols"
    by (auto split: sum.splits)
  from Cons.IH [OF rest Cons.prems(2)]
  have "(k, l) \<in> set (AList.update k' c d) \<or> key l = Inr k" .
  moreover have "set (AList.update k' c d) \<subseteq> insert (k', c) (set d)"
    by (induction d) auto
  ultimately show ?case using k' by auto
qed

lemma distinct_names:
  assumes "distinct (map to_allcaps cs)"
  shows "distinct (map (\<lambda>c. p @ to_allcaps c @ q) cs)"
proof -
  have "map (\<lambda>c. p @ to_allcaps c @ q) cs = map (\<lambda>x. p @ x @ q) (map to_allcaps cs)"
    by simp
  moreover have "inj (\<lambda>x. p @ x @ q)" by (simp add: inj_on_def)
  ultimately show ?thesis using assms
    by (simp only: distinct_map) (auto intro: inj_on_subset)
qed

lemma distinct_labels: "distinct (map to_allcaps cs) \<Longrightarrow> distinct cs"
  by (simp add: distinct_map)

lemma tissue_cols_closed:
  assumes "no_braces st" and "distinct (map to_allcaps cs)"
  shows "tissue_cols cs st = Inr (map (\<lambda>c. (st @ ''_'' @ to_allcaps c, c)) cs)"
proof -
  have key: "str_format (tissue_column_format st) [to_allcaps c] = Inr (st @ ''_'' @ to_allcaps c)"
    for c
    using str_format_field [of "st @ ''_''" "[]" "to_allcaps c"] assms(1)
    by (simp add: tissue_column_format_def no_braces_Cons)
  have "distinct (map (\<lambda>c. st @ ''_'' @ to_allcaps c) cs)"
    using distinct_names [OF assms(2), of "st @ ''_''" "[]"] by simp
  then show ?thesis
    unfolding tissue_cols_def
    using dict_comp_distinct [of cs _ "\<lambda>c. st @ ''_'' @ to_allcaps c" "[]"] key by simp
qed

lemma cell_columns_closed:
  assumes "no_braces st" and "no_braces tt" and "distinct (map to_allcaps cs)"
  shows "cell_columns cs tt st =
         Inr (map (\<lambda>c. (st @ ''_'' @ to_allcaps c @
                         (if tt = tissue_all then [] else ''_'' @ to_allcaps tt), c)) cs)"
proof -
  let ?q = "if tt = tissue_all then [] else ''_'' @ to_allcaps tt"
  have q: "no_braces ?q" using assms(2) by (simp add: no_braces_Cons)
  have fmt: "cell_column_format tt st = (st @ ''_'') @ ''{}'' @ ?q"
    by (simp add: cell_column_format_def)
  have key: "str_format (cell_column_format tt st) [to_allcaps c] = Inr (st @ ''_'' @ to_allcaps c @ ?q)"
    for c
    unfolding fmt
    using str_format_field [of "st @ ''_''" ?q "to_allcaps c"] assms(1) q
    by (simp add: no_braces_Cons)
  have "distinct (map (\<lambda>c. st @ ''_'' @ to_allcaps c @ ?q) cs)"
    using distinct_names [OF assms(3), of "st @ ''_''" ?q] by simp
  then show ?thesis
    unfolding cell_columns_def
    using dict_comp_distinct [of cs _ "\<lambda>c. st @ ''_'' @ to_allcaps c @ ?q" "[]"] key by simp
qed

lemma to_allcaps_append: "to_allcaps (p @ q) = to_allcaps p @ to_allcaps q"
  by (simp add: to_allcaps_map)

lemma to_allcaps_field: "to_allcaps ''_OF_{}S_AROUND_'' = ''_OF_'' @ ''{}'' @ ''S_AROUND_''"
  by (simp add: to_allcaps_def upper_def replace_def upper_char_def ascii_lowercase_def
      ascii_uppercase_def)

lemma str_nat_digits: "set (str_nat n) \<subseteq> set ''0123456789''"
proof (induction n rule: str_nat.induct)
  case (1 n)
  have d: "k < 10 \<Longrightarrow> ''0123456789'' ! k \<in> set ''0123456789''" for k
    by (rule nth_mem) simp
  show ?case
  proof (cases "n < 10")
    case True
    then show ?thesis using d [of n] by (subst str_nat.simps) simp
  next
    case False
    then show ?thesis using 1 d [of "n mod 10"] by (subst str_nat.simps) simp
  qed
qed

lemma no_braces_str_int: "no_braces (str_int r)"
  using str_nat_digits [of "nat r"] str_nat_digits [of "nat (- r)"]
  by (auto simp: str_int_def no_braces_def)

lemma neighborhood_column_shape:
  "neighborhood_column a roi st r =
     (to_allcaps st @ ''_OF_'') @ ''{}'' @
     (''S_AROUND_'' @ to_allcaps a @ to_allcaps ''_IN_'' @ to_allcaps roi @ to_allcaps ''_'' @
      to_allcaps (str_int r))"
  by (simp only: neighborhood_column_def to_allcaps_append to_allcaps_field append_assoc)

lemma columns_to_labels_closed:
  assumes "no_braces st" and "no_braces a" and "no_braces roi"
    and "distinct (map to_allcaps cs)"
  shows "columns_to_labels cs a roi st r =
         Inr (map (\<lambda>b. (to_allcaps (to_allcaps st @ ''_OF_'') @ to_allcaps b @
                         to_allcaps (''S_AROUND_'' @ to_allcaps a @ to_allcaps ''_IN_'' @
                                     to_allcaps roi @ to_allcaps ''_'' @ to_allcaps (str_int r)),
                         b)) cs)"
proof -
  let ?p = "to_allcaps st @ ''_OF_''"
  let ?q = "''S_AROUND_'' @ to_allcaps a @ to_allcaps ''_IN_'' @ to_allcaps roi @
            to_allcaps ''_'' @ to_allcaps (str_int r)"
  have p: "no_braces ?p" using assms(1) by (simp add: no_braces_Cons)
  have q: "no_braces ?q" using assms(2,3) no_braces_str_int [of r] by (simp add: no_braces_Cons)
  have key: "map_sum id to_allcaps (str_format (neighborhood_column a roi st r) [b]) =
             Inr (to_allcaps ?p @ to_allcaps b @ to_allcaps ?q)" for b
    unfolding neighborhood_column_shape
    by (simp only: str_format_field [OF p q] map_sum.simps to_allcaps_append)
  have "distinct (map (\<lambda>b. to_allcaps ?p @ to_allcaps b @ to_allcaps ?q) cs)"
    using distinct_names [OF assms(4)] by simp
  then show ?thesis
    unfolding columns_to_labels_def
    using dict_comp_distinct [of cs _ "\<lambda>b. to_allcaps ?p @ to_allcaps b @ to_allcaps ?q" "[]"] key
    by simp
qed

lemma capitalize_catalog:
  "stat \<in> set catalog_statistics \<Longrightarrow> capitalize (name stat) = name stat"
  unfolding catalog_statistics_def tissue_stat_dict_def cell_stat_dict_def neighborhood_stat_dict_def
  by (auto simp: lower_def lower_char_def upper_char_def ascii_lowercase_def ascii_uppercase_def)

section \<open>Lemmas on the catalogs, the resolvers and the plots\<close>

lemma to_allcaps_tissue_classes:
  "map to_allcaps tissue_classes =
     [''CARCINOMA'', ''STROMA'', ''NECROSIS'', ''BLOOD'', ''VESSEL'', ''EPITHELIAL_TISSUE'',
      ''OTHER'']"
  by (simp add: tissue_classes_def to_allcaps_def upper_def replace_def upper_char_def
      ascii_lowercase_def ascii_uppercase_def)

lemma to_allcaps_cell_classes:
  "map to_allcaps cell_classes =
     [''CARCINOMA_CELL'', ''LYMPHOCYTE'', ''MACROPHAGE'', ''GRANULOCYTE'', ''PLASMA_CELL'',
      ''EPITHELIAL_CELL'', ''ENDOTHELIAL_CELL'', ''FIBROBLAST'', ''OTHER'']"
  by (simp add: cell_classes_def to_allcaps_def upper_def replace_def upper_char_def
      ascii_lowercase_def ascii_uppercase_def)

lemma distinct_tissue_names: "distinct (map to_allcaps tissue_classes)"
  unfolding to_allcaps_tissue_classes by simp

lemma distinct_cell_names: "distinct (map to_allcaps cell_classes)"
  unfolding to_allcaps_cell_classes by simp

lemma no_braces_tissue_stat: "st \<in> fst ` set tissue_stat_dict \<Longrightarrow> no_braces st"
  by (auto simp: tissue_stat_dict_def no_braces_def)

lemma no_braces_cell_stat: "st \<in> fst ` set cell_stat_dict \<Longrightarrow> no_braces st"
  by (auto simp: cell_stat_dict_def no_braces_def)

lemma no_braces_neighborhood_stat: "st \<in> fst ` set neighborhood_stat_dict \<Longrightarrow> no_braces st"
  by (auto simp: neighborhood_stat_dict_def no_braces_def)

lemma no_braces_tissue_all: "no_braces tissue_all"
  by (simp add: tissue_all_def no_braces_def)

lemma no_braces_tissue_class: "t \<in> set tissue_classes \<Longrightarrow> no_braces t"
  by (auto simp: tissue_classes_def no_braces_def)

lemma no_braces_cell_class: "c \<in> set cell_classes \<Longrightarrow> no_braces c"
  by (auto simp: cell_classes_def no_braces_def)

lemma no_braces_tissue_type_option: "t \<in> options tissue_type_dropdown \<Longrightarrow> no_braces t"
  using no_braces_tissue_all no_braces_tissue_class
  by (auto simp: tissue_type_dropdown_def)

lemma no_braces_roi_option: "t \<in> options roi_dropdown \<Longrightarrow> no_braces t"
  using no_braces_tissue_class by (auto simp: roi_dropdown_def)

lemma label_bijection:
  assumes "distinct (map fst cols)" and "distinct (map snd cols)"
  shows "bij_betw (\<lambda>k. the (map_of cols k)) (fst ` set cols) (snd ` set cols)"
proof -
  have look: "the (map_of cols (fst p)) = snd p" if "p \<in> set cols" for p
  proof -
    have "(fst p, snd p) \<in> set cols" using that by simp
    then have "map_of cols (fst p) = Some (snd p)"
      using assms(1) by (rule map_of_is_SomeI [rotated])
    then show ?thesis by simp
  qed
  have "inj_on snd (set cols)" using assms(2) by (simp add: distinct_map)
  then have "inj_on (\<lambda>k. the (map_of cols k)) (fst ` set cols)"
    by (auto simp: inj_on_def look)
  moreover have "(\<lambda>k. the (map_of cols k)) ` fst ` set cols = snd ` set cols"
  proof -
    have "(\<lambda>k. the (map_of cols k)) ` fst ` set cols =
          (\<lambda>p. the (map_of cols (fst p))) ` set cols"
      by (simp add: image_image)
    also have "\<dots> = snd ` set cols"
      by (rule image_cong) (simp_all add: look)
    finally show ?thesis .
  qed
  ultimately show ?thesis by (simp add: bij_betw_def)
qed

lemma closed_form_one_name:
  assumes "distinct (map f cs)" and "distinct cs"
  shows "one_name_per_label cs (map (\<lambda>c. (f c, c)) cs)"
  using assms by (simp add: one_name_per_label_def comp_def)

lemma one_name_bijection:
  assumes "one_name_per_label cs cols"
  shows "bij_betw (\<lambda>k. the (map_of cols k)) (fst ` set cols) (set cs)"
proof -
  from assms have a: "map snd cols = cs" and b: "distinct (map fst cols)"
    and c: "distinct (map snd cols)"
    unfolding one_name_per_label_def by blast+
  have "snd ` set cols = set cs" using arg_cong [OF a, of set] by simp
  then show ?thesis using label_bijection [OF b c] by simp
qed

lemma eval_to_allcaps:
  "to_allcaps ''Plasma cell'' = ''PLASMA_CELL''"
  "to_allcaps ''Epithelial tissue'' = ''EPITHELIAL_TISSUE''"
  "to_allcaps ''Stroma'' = ''STROMA''"
  "to_allcaps ''Carcinoma'' = ''CARCINOMA''"
  "to_allcaps ''Carcinoma cell'' = ''CARCINOMA_CELL''"
  "to_allcaps ''Lymphocyte'' = ''LYMPHOCYTE''"
  "to_allcaps ''RATIO'' = ''RATIO''"
  "to_allcaps ''DENSITY'' = ''DENSITY''"
  "to_allcaps ''AVG_MIN_DISTANCE'' = ''AVG_MIN_DISTANCE''"
  "to_allcaps ''_IN_'' = ''_IN_''"
  "to_allcaps ''_'' = ''_''"
  "to_allcaps ''_OF_'' = ''_OF_''"
  "to_allcaps ''20'' = ''20''"
  "to_allcaps ''40'' = ''40''"
  by (simp_all add: to_allcaps_def upper_def replace_def upper_char_def
      ascii_lowercase_def ascii_uppercase_def)

lemma eval_str_int: "str_int 20 = ''20''" "str_int 40 = ''40''"
  by (simp_all add: str_int_def str_nat.simps)

lemma map_of_labels: "map_of (columns df) k = None \<longleftrightarrow> k \<notin> labels df"
  by (simp add: labels_def map_of_eq_None_iff)

lemma getitem_columns_missing:
  "[k \<leftarrow> keys. k \<notin> labels df] = m # ms \<Longrightarrow> getitem_columns df keys = Inl (KeyError (m # ms))"
  by (simp add: getitem_columns_def map_of_labels)

lemma getitem_columns_present:
  "[k \<leftarrow> keys. k \<notin> labels df] = [] \<Longrightarrow> \<exists>sub. getitem_columns df keys = Inr sub"
  by (simp add: getitem_columns_def map_of_labels)

lemma getitem_catalog: "k \<in> fst ` set d \<Longrightarrow> \<exists>v. getitem d k = Inr v"
  by (cases "map_of d k") (auto simp: getitem_def map_of_eq_None_iff)

lemma tissue_cols_area:
  "tissue_cols tissue_classes ''AREA'' =
     Inr [(''AREA_CARCINOMA'', ''Carcinoma''), (''AREA_STROMA'', ''Stroma''),
          (''AREA_NECROSIS'', ''Necrosis''), (''AREA_BLOOD'', ''Blood''),
          (''AREA_VESSEL'', ''Vessel''), (''AREA_EPITHELIAL_TISSUE'', ''Epithelial tissue''),
          (''AREA_OTHER'', ''Other'')]"
proof -
  have "no_braces ''AREA''" by (simp add: no_braces_def)
  from tissue_cols_closed [OF this distinct_tissue_names] show ?thesis
    by (simp add: tissue_classes_def to_allcaps_def upper_def replace_def upper_char_def
        ascii_lowercase_def ascii_uppercase_def)
qed

lemma cell_columns_dens_stroma:
  "cell_columns cell_classes ''Stroma'' ''CELL_DENS'' =
     Inr [(''CELL_DENS_CARCINOMA_CELL_STROMA'', ''Carcinoma cell''),
          (''CELL_DENS_LYMPHOCYTE_STROMA'', ''Lymphocyte''),
          (''CELL_DENS_MACROPHAGE_STROMA'', ''Macrophage''),
          (''CELL_DENS_GRANULOCYTE_STROMA'', ''Granulocyte''),
          (''CELL_DENS_PLASMA_CELL_STROMA'', ''Plasma cell''),
          (''CELL_DENS_EPITHELIAL_CELL_STROMA'', ''Epithelial cell''),
          (''CELL_DENS_ENDOTHELIAL_CELL_STROMA'', ''Endothelial cell''),
          (''CELL_DENS_FIBROBLAST_STROMA'', ''Fibroblast''),
          (''CELL_DENS_OTHER_STROMA'', ''Other'')]"
proof -
  have "no_braces ''CELL_DENS''" and "no_braces ''Stroma''" by (simp_all add: no_braces_def)
  from cell_columns_closed [OF this distinct_cell_names] show ?thesis
    by (simp add: cell_classes_def tissue_all_def to_allcaps_def upper_def replace_def
        upper_char_def ascii_lowercase_def ascii_uppercase_def)
qed

lemma columns_to_labels_ratio:
  "columns_to_labels cell_classes ''Carcinoma cell'' ''Carcinoma'' ''RATIO'' 20 =
     Inr [(''RATIO_OF_CARCINOMA_CELLS_AROUND_CARCINOMA_CELL_IN_CARCINOMA_20'', ''Carcinoma cell''),
          (''RATIO_OF_LYMPHOCYTES_AROUND_CARCINOMA_CELL_IN_CARCINOMA_20'', ''Lymphocyte''),
          (''RATIO_OF_MACROPHAGES_AROUND_CARCINOMA_CELL_IN_CARCINOMA_20'', ''Macrophage''),
          (''RATIO_OF_GRANULOCYTES_AROUND_CARCINOMA_CELL_IN_CARCINOMA_20'', ''Granulocyte''),
          (''RATIO_OF_PLASMA_CELLS_AROUND_CARCINOMA_CELL_IN_CARCINOMA_20'', ''Plasma cell''),
          (''RATIO_OF_EPITHELIAL_CELLS_AROUND_CARCINOMA_CELL_IN_CARCINOMA_20'', ''Epithelial cell''),
          (''RATIO_OF_ENDOTHELIAL_CELLS_AROUND_CARCINOMA_CELL_IN_CARCINOMA_20'', ''Endothelial cell''),
          (''RATIO_OF_FIBROBLASTS_AROUND_CARCINOMA_CELL_IN_CARCINOMA_20'', ''Fibroblast''),
          (''RATIO_OF_OTHERS_AROUND_CARCINOMA_CELL_IN_CARCINOMA_20'', ''Other'')]"
proof -
  have "no_braces ''RATIO''" and "no_braces ''Carcinoma cell''" and "no_braces ''Carcinoma''"
    by (simp_all add: no_braces_def)
  from columns_to_labels_closed [OF this distinct_cell_names, of 20] show ?thesis
    by (simp add: cell_classes_def eval_str_int to_allcaps_def upper_def replace_def
        upper_char_def ascii_lowercase_def ascii_uppercase_def)
qed













lemma plot_boxplot_truthy:
  "truthy pm \<Longrightarrow>
     plot_boxplot pm df variable stat title0 color subtitle i =
     plot_boxplot (PBool True) df variable stat title0 color subtitle i"
  by (simp add: plot_boxplot_def)

lemma plot_truthy:
  assumes "truthy pm"
  shows "plot_tissue_areas pm df statistic i = plot_tissue_areas (PBool True) df statistic i"
    and "plot_cell_stat pm df tissue_type statistic i =
         plot_cell_stat (PBool True) df tissue_type statistic i"
    and "plot_neighborhood_stat pm df cell_class_a roi statistic radius i =
         plot_neighborhood_stat (PBool True) df cell_class_a roi statistic radius i"
  by (simp_all only: plot_tissue_areas_def plot_cell_stat_def plot_neighborhood_stat_def
      plot_boxplot_truthy [OF assms])

lemma display_truthy:
  assumes "truthy pm"
  shows "display_tissue_graph pm ws df i = display_tissue_graph (PBool True) ws df i"
    and "display_cell_graphs pm ws df i = display_cell_graphs (PBool True) ws df i"
    and "display_neighbourbood_graphs pm ws df i =
         display_neighbourbood_graphs (PBool True) ws df i"
proof -
  have t: "plot_tissue_areas pm = plot_tissue_areas (PBool True)"
    by (intro ext) (rule plot_truthy [OF assms])
  have c: "plot_cell_stat pm = plot_cell_stat (PBool True)"
    by (intro ext) (rule plot_truthy [OF assms])
  have n: "plot_neighborhood_stat pm = plot_neighborhood_stat (PBool True)"
    by (intro ext) (rule plot_truthy [OF assms])
  show "display_tissue_graph pm ws df i = display_tissue_graph (PBool True) ws df i"
    unfolding display_tissue_graph_def t using assms by simp
  show "display_cell_graphs pm ws df i = display_cell_graphs (PBool True) ws df i"
    unfolding display_cell_graphs_def c using assms by simp
  show "display_neighbourbood_graphs pm ws df i =
         display_neighbourbood_graphs (PBool True) ws df i"
    unfolding display_neighbourbood_graphs_def n using assms by simp
qed

section \<open>The properties\<close>

text \<open>
  C1. The claim: the print flag selects the mode, interactive when it is absent or false,
  batch when it is true, and both modes are reachable. The code computes
  \<open>mo.cli_args().get("print") or True\<close>, which is truthy for every command line: without the
  flag and with the flag false \<open>print_mode\<close> is \<open>True\<close>, so every \<open>if print_mode\<close> takes the
  batch branch, the interactive branch is never taken, and a run with any command line is the
  run without the flag.
\<close>

theorem print_mode_always_truthy:
  "truthy (print_mode cli_args) \<and>
   print_mode Map.empty = PBool True \<and>
   print_mode [''print'' \<mapsto> PBool False] = PBool True \<and>
   app_run cli_args ws csv = app_run Map.empty ws csv"
proof -
  have t: "truthy (print_mode c)" for c
    by (simp add: print_mode_def py_or_def)
  have "app_run c ws csv = app_run Map.empty ws csv" for c
    unfolding app_run_def Let_def
    by (simp only: display_truthy [OF t [of c]] display_truthy [OF t [of Map.empty]])
  then show ?thesis
    by (simp add: print_mode_def py_or_def dict_get_def)
qed

text \<open>
  C2. The claim: a table with a duplicated slide row makes the load fail. The code compares
  \<open>len(df)\<close> with itself, so \<open>load_readouts_data\<close> returns every frame it is given and the
  assertion never fails.
\<close>

theorem load_readouts_data_never_fails: "load_readouts_data df = Inr df"
  by (simp add: load_readouts_data_def)

text \<open>
  C3. For every statistic code of a catalog and every qualifier the dropdowns offer (the
  presets of print mode are among them; the radius is arbitrary), each resolver returns a
  mapping with one column name for each class of its enumeration, in order, and the map from
  the names to the labels is a bijection onto the enumeration.
\<close>

theorem resolver_one_name_per_class:
  assumes "tstat \<in> fst ` set tissue_stat_dict"
    and "cstat \<in> fst ` set cell_stat_dict"
    and "tissue_type \<in> options tissue_type_dropdown"
    and "nstat \<in> fst ` set neighborhood_stat_dict"
    and "cell_class_a \<in> set (options cell_class_a_dropdown)"
    and "roi \<in> options roi_dropdown"
  shows "(\<exists>cols. tissue_cols tissue_classes tstat = Inr cols \<and>
                 one_name_per_label tissue_classes cols \<and>
                 bij_betw (\<lambda>k. the (map_of cols k)) (fst ` set cols) (set tissue_classes)) \<and>
         (\<exists>cols. cell_columns cell_classes tissue_type cstat = Inr cols \<and>
                 one_name_per_label cell_classes cols \<and>
                 bij_betw (\<lambda>k. the (map_of cols k)) (fst ` set cols) (set cell_classes)) \<and>
         (\<exists>cols. columns_to_labels cell_classes cell_class_a roi nstat radius = Inr cols \<and>
                 one_name_per_label cell_classes cols \<and>
                 bij_betw (\<lambda>k. the (map_of cols k)) (fst ` set cols) (set cell_classes))"
proof (intro conjI)
  let ?t = "map (\<lambda>c. (tstat @ ''_'' @ to_allcaps c, c)) tissue_classes"
  have "tissue_cols tissue_classes tstat = Inr ?t"
    using assms(1) by (simp only: tissue_cols_closed no_braces_tissue_stat distinct_tissue_names)
  moreover have "one_name_per_label tissue_classes ?t"
    using distinct_names [OF distinct_tissue_names, of "tstat @ ''_''" "[]"]
      distinct_labels [OF distinct_tissue_names]
    by (simp add: closed_form_one_name)
  ultimately show "\<exists>cols. tissue_cols tissue_classes tstat = Inr cols \<and>
      one_name_per_label tissue_classes cols \<and>
      bij_betw (\<lambda>k. the (map_of cols k)) (fst ` set cols) (set tissue_classes)"
    using one_name_bijection by blast
next
  let ?q = "if tissue_type = tissue_all then [] else ''_'' @ to_allcaps tissue_type"
  let ?c = "map (\<lambda>c. (cstat @ ''_'' @ to_allcaps c @ ?q, c)) cell_classes"
  have "cell_columns cell_classes tissue_type cstat = Inr ?c"
    using assms(2,3)
    by (simp only: cell_columns_closed no_braces_cell_stat no_braces_tissue_type_option
        distinct_cell_names)
  moreover have "one_name_per_label cell_classes ?c"
    using distinct_names [OF distinct_cell_names, of "cstat @ ''_''" ?q]
      distinct_labels [OF distinct_cell_names]
    by (simp add: closed_form_one_name)
  ultimately show "\<exists>cols. cell_columns cell_classes tissue_type cstat = Inr cols \<and>
      one_name_per_label cell_classes cols \<and>
      bij_betw (\<lambda>k. the (map_of cols k)) (fst ` set cols) (set cell_classes)"
    using one_name_bijection by blast
next
  let ?p = "to_allcaps (to_allcaps nstat @ ''_OF_'')"
  let ?q = "to_allcaps (''S_AROUND_'' @ to_allcaps cell_class_a @ to_allcaps ''_IN_'' @
              to_allcaps roi @ to_allcaps ''_'' @ to_allcaps (str_int radius))"
  let ?n = "map (\<lambda>b. (?p @ to_allcaps b @ ?q, b)) cell_classes"
  have a: "no_braces cell_class_a"
    using assms(5) by (simp add: cell_class_a_dropdown_def no_braces_cell_class)
  have "columns_to_labels cell_classes cell_class_a roi nstat radius = Inr ?n"
    using assms(4,6) a
    by (simp only: columns_to_labels_closed no_braces_neighborhood_stat no_braces_roi_option
        distinct_cell_names)
  moreover have "one_name_per_label cell_classes ?n"
    using distinct_names [OF distinct_cell_names, of ?p ?q]
      distinct_labels [OF distinct_cell_names]
    by (simp only: closed_form_one_name)
  ultimately show "\<exists>cols. columns_to_labels cell_classes cell_class_a roi nstat radius = Inr cols \<and>
      one_name_per_label cell_classes cols \<and>
      bij_betw (\<lambda>k. the (map_of cols k)) (fst ` set cols) (set cell_classes)"
    using one_name_bijection by blast
qed

theorem resolver_one_name_per_class_witness:
  "''AREA'' \<in> fst ` set tissue_stat_dict \<and>
   ''CELL_DENS'' \<in> fst ` set cell_stat_dict \<and>
   ''Stroma'' \<in> options tissue_type_dropdown \<and>
   ''RATIO'' \<in> fst ` set neighborhood_stat_dict \<and>
   ''Carcinoma cell'' \<in> set (options cell_class_a_dropdown) \<and>
   ''Carcinoma'' \<in> options roi_dropdown \<and>
   (\<exists>cols. tissue_cols tissue_classes ''AREA'' = Inr cols \<and>
           one_name_per_label tissue_classes cols \<and>
           bij_betw (\<lambda>k. the (map_of cols k)) (fst ` set cols) (set tissue_classes)) \<and>
   (\<exists>cols. cell_columns cell_classes ''Stroma'' ''CELL_DENS'' = Inr cols \<and>
           one_name_per_label cell_classes cols \<and>
           bij_betw (\<lambda>k. the (map_of cols k)) (fst ` set cols) (set cell_classes)) \<and>
   (\<exists>cols. columns_to_labels cell_classes ''Carcinoma cell'' ''Carcinoma'' ''RATIO'' 20 = Inr cols \<and>
           one_name_per_label cell_classes cols \<and>
           bij_betw (\<lambda>k. the (map_of cols k)) (fst ` set cols) (set cell_classes))"
proof -
  have h1: "''AREA'' \<in> fst ` set tissue_stat_dict" by (simp add: tissue_stat_dict_def)
  have h2: "''CELL_DENS'' \<in> fst ` set cell_stat_dict" by (simp add: cell_stat_dict_def)
  have h3: "''Stroma'' \<in> options tissue_type_dropdown"
    by (simp add: tissue_type_dropdown_def tissue_classes_def)
  have h4: "''RATIO'' \<in> fst ` set neighborhood_stat_dict"
    by (simp add: neighborhood_stat_dict_def)
  have h5: "''Carcinoma cell'' \<in> set (options cell_class_a_dropdown)"
    by (simp add: cell_class_a_dropdown_def cell_classes_def)
  have h6: "''Carcinoma'' \<in> options roi_dropdown"
    by (simp add: roi_dropdown_def tissue_classes_def)
  from resolver_one_name_per_class [OF h1 h2 h3 h4 h5 h6, of 20] h1 h2 h3 h4 h5 h6
  show ?thesis by (intro conjI) blast+
qed

text \<open>
  C4. With the tissue qualifier "All tissue types" the cell resolver builds, for every cell
  class, the name \<open>{STAT}_{allcaps(CLS)}\<close> with no tissue segment; and resolving CELL_DENS
  over the two classes Carcinoma cell and Lymphocyte returns exactly the two names
  CELL_DENS_CARCINOMA_CELL and CELL_DENS_LYMPHOCYTE with their labels.
\<close>

theorem all_tissue_types_omits_suffix:
  assumes "statistic \<in> fst ` set cell_stat_dict"
  shows "cell_columns cell_classes ''All tissue types'' statistic =
           Inr (map (\<lambda>cls. (statistic @ ''_'' @ to_allcaps cls, cls)) cell_classes) \<and>
         cell_columns [''Carcinoma cell'', ''Lymphocyte''] ''All tissue types'' ''CELL_DENS'' =
           Inr [(''CELL_DENS_CARCINOMA_CELL'', ''Carcinoma cell''),
                (''CELL_DENS_LYMPHOCYTE'', ''Lymphocyte'')]"
proof
  have "cell_columns cell_classes tissue_all statistic =
        Inr (map (\<lambda>cls. (statistic @ ''_'' @ to_allcaps cls @ [], cls)) cell_classes)"
    using cell_columns_closed [OF no_braces_cell_stat [OF assms] no_braces_tissue_all
        distinct_cell_names]
    by simp
  then show "cell_columns cell_classes ''All tissue types'' statistic =
           Inr (map (\<lambda>cls. (statistic @ ''_'' @ to_allcaps cls, cls)) cell_classes)"
    by (simp add: tissue_all_def)
next
  have st: "no_braces ''CELL_DENS''" by (simp add: no_braces_def)
  have d: "distinct (map to_allcaps [''Carcinoma cell'', ''Lymphocyte''])"
    by (simp add: eval_to_allcaps)
  show "cell_columns [''Carcinoma cell'', ''Lymphocyte''] ''All tissue types'' ''CELL_DENS'' =
           Inr [(''CELL_DENS_CARCINOMA_CELL'', ''Carcinoma cell''),
                (''CELL_DENS_LYMPHOCYTE'', ''Lymphocyte'')]"
    using cell_columns_closed [OF st no_braces_tissue_all d]
    by (simp add: tissue_all_def eval_to_allcaps)
qed

theorem all_tissue_types_omits_suffix_witness:
  "''CELL_PERC'' \<in> fst ` set cell_stat_dict \<and>
   cell_columns cell_classes ''All tissue types'' ''CELL_PERC'' =
     Inr [(''CELL_PERC_CARCINOMA_CELL'', ''Carcinoma cell''),
          (''CELL_PERC_LYMPHOCYTE'', ''Lymphocyte''),
          (''CELL_PERC_MACROPHAGE'', ''Macrophage''),
          (''CELL_PERC_GRANULOCYTE'', ''Granulocyte''),
          (''CELL_PERC_PLASMA_CELL'', ''Plasma cell''),
          (''CELL_PERC_EPITHELIAL_CELL'', ''Epithelial cell''),
          (''CELL_PERC_ENDOTHELIAL_CELL'', ''Endothelial cell''),
          (''CELL_PERC_FIBROBLAST'', ''Fibroblast''),
          (''CELL_PERC_OTHER'', ''Other'')]"
proof -
  have h: "''CELL_PERC'' \<in> fst ` set cell_stat_dict" by (simp add: cell_stat_dict_def)
  have names: "map (\<lambda>cls. (''CELL_PERC'' @ ''_'' @ to_allcaps cls, cls)) cell_classes =
     [(''CELL_PERC_CARCINOMA_CELL'', ''Carcinoma cell''),
      (''CELL_PERC_LYMPHOCYTE'', ''Lymphocyte''),
      (''CELL_PERC_MACROPHAGE'', ''Macrophage''),
      (''CELL_PERC_GRANULOCYTE'', ''Granulocyte''),
      (''CELL_PERC_PLASMA_CELL'', ''Plasma cell''),
      (''CELL_PERC_EPITHELIAL_CELL'', ''Epithelial cell''),
      (''CELL_PERC_ENDOTHELIAL_CELL'', ''Endothelial cell''),
      (''CELL_PERC_FIBROBLAST'', ''Fibroblast''),
      (''CELL_PERC_OTHER'', ''Other'')]"
    by (simp add: cell_classes_def to_allcaps_def upper_def replace_def upper_char_def
      ascii_lowercase_def ascii_uppercase_def)
  show ?thesis
    using h all_tissue_types_omits_suffix [OF h, THEN conjunct1] by (simp only: names simp_thms)
qed



text \<open>
  C6. For each of the three resolvers and every entry (C, L) of its mapping, filling the
  column template with \<open>to_allcaps(L)\<close> gives C again. For the neighborhood resolver the
  template is the normalised \<open>column\<close> of the code.
\<close>

theorem label_round_trip:
  "(tissue_cols classes statistic = Inr cols \<and> (C, L) \<in> set cols \<longrightarrow>
      str_format (tissue_column_format statistic) [to_allcaps L] = Inr C) \<and>
   (cell_columns classes tissue_type statistic = Inr cols \<and> (C, L) \<in> set cols \<longrightarrow>
      str_format (cell_column_format tissue_type statistic) [to_allcaps L] = Inr C) \<and>
   (columns_to_labels classes cell_class_a roi statistic radius = Inr cols \<and> (C, L) \<in> set cols \<longrightarrow>
      str_format (neighborhood_column cell_class_a roi statistic radius) [to_allcaps L] = Inr C)"
proof (intro conjI impI; elim conjE)
  assume "tissue_cols classes statistic = Inr cols" and "(C, L) \<in> set cols"
  then show "str_format (tissue_column_format statistic) [to_allcaps L] = Inr C"
    unfolding tissue_cols_def by (auto dest: dict_comp_entry)
next
  assume "cell_columns classes tissue_type statistic = Inr cols" and "(C, L) \<in> set cols"
  then show "str_format (cell_column_format tissue_type statistic) [to_allcaps L] = Inr C"
    unfolding cell_columns_def by (auto dest: dict_comp_entry)
next
  let ?column = "neighborhood_column cell_class_a roi statistic radius"
  assume "columns_to_labels classes cell_class_a roi statistic radius = Inr cols"
    and "(C, L) \<in> set cols"
  then have "map_sum id to_allcaps (str_format ?column [L]) = Inr C"
    unfolding columns_to_labels_def by (auto dest: dict_comp_entry)
  moreover have "to_allcaps ?column = ?column"
    by (simp add: neighborhood_column_def to_allcaps_idem)
  ultimately show "str_format ?column [to_allcaps L] = Inr C"
    using str_format_to_allcaps [of ?column "[L]"] by simp
qed

theorem label_round_trip_witness:
  "(\<exists>cols. tissue_cols tissue_classes ''AREA'' = Inr cols \<and>
           (''AREA_EPITHELIAL_TISSUE'', ''Epithelial tissue'') \<in> set cols) \<and>
   str_format (tissue_column_format ''AREA'') [to_allcaps ''Epithelial tissue''] =
     Inr ''AREA_EPITHELIAL_TISSUE'' \<and>
   (\<exists>cols. cell_columns cell_classes ''Stroma'' ''CELL_DENS'' = Inr cols \<and>
           (''CELL_DENS_PLASMA_CELL_STROMA'', ''Plasma cell'') \<in> set cols) \<and>
   str_format (cell_column_format ''Stroma'' ''CELL_DENS'') [to_allcaps ''Plasma cell''] =
     Inr ''CELL_DENS_PLASMA_CELL_STROMA'' \<and>
   (\<exists>cols. columns_to_labels cell_classes ''Carcinoma cell'' ''Carcinoma'' ''RATIO'' 20 = Inr cols \<and>
           (''RATIO_OF_LYMPHOCYTES_AROUND_CARCINOMA_CELL_IN_CARCINOMA_20'', ''Lymphocyte'')
             \<in> set cols) \<and>
   str_format (neighborhood_column ''Carcinoma cell'' ''Carcinoma'' ''RATIO'' 20)
     [to_allcaps ''Lymphocyte''] =
     Inr ''RATIO_OF_LYMPHOCYTES_AROUND_CARCINOMA_CELL_IN_CARCINOMA_20''"
proof -
  note t = conjI [OF tissue_cols_area,
      of "(''AREA_EPITHELIAL_TISSUE'', ''Epithelial tissue'') \<in> set
            [(''AREA_CARCINOMA'', ''Carcinoma''), (''AREA_STROMA'', ''Stroma''),
             (''AREA_NECROSIS'', ''Necrosis''), (''AREA_BLOOD'', ''Blood''),
             (''AREA_VESSEL'', ''Vessel''), (''AREA_EPITHELIAL_TISSUE'', ''Epithelial tissue''),
             (''AREA_OTHER'', ''Other'')]"]
  have t1: "\<exists>cols. tissue_cols tissue_classes ''AREA'' = Inr cols \<and>
           (''AREA_EPITHELIAL_TISSUE'', ''Epithelial tissue'') \<in> set cols"
    by (simp add: tissue_cols_area)
  have t2: "str_format (tissue_column_format ''AREA'') [to_allcaps ''Epithelial tissue''] =
     Inr ''AREA_EPITHELIAL_TISSUE''"
    by (rule label_round_trip [THEN conjunct1, rule_format, OF t]) simp
  note c = conjI [OF cell_columns_dens_stroma,
      of "(''CELL_DENS_PLASMA_CELL_STROMA'', ''Plasma cell'') \<in> set
           [(''CELL_DENS_CARCINOMA_CELL_STROMA'', ''Carcinoma cell''),
            (''CELL_DENS_LYMPHOCYTE_STROMA'', ''Lymphocyte''),
            (''CELL_DENS_MACROPHAGE_STROMA'', ''Macrophage''),
            (''CELL_DENS_GRANULOCYTE_STROMA'', ''Granulocyte''),
            (''CELL_DENS_PLASMA_CELL_STROMA'', ''Plasma cell''),
            (''CELL_DENS_EPITHELIAL_CELL_STROMA'', ''Epithelial cell''),
            (''CELL_DENS_ENDOTHELIAL_CELL_STROMA'', ''Endothelial cell''),
            (''CELL_DENS_FIBROBLAST_STROMA'', ''Fibroblast''),
            (''CELL_DENS_OTHER_STROMA'', ''Other'')]"]
  have c1: "\<exists>cols. cell_columns cell_classes ''Stroma'' ''CELL_DENS'' = Inr cols \<and>
           (''CELL_DENS_PLASMA_CELL_STROMA'', ''Plasma cell'') \<in> set cols"
    by (simp add: cell_columns_dens_stroma)
  have c2: "str_format (cell_column_format ''Stroma'' ''CELL_DENS'') [to_allcaps ''Plasma cell''] =
     Inr ''CELL_DENS_PLASMA_CELL_STROMA''"
    by (rule label_round_trip [THEN conjunct2, THEN conjunct1, rule_format, OF c]) simp
  note n = conjI [OF columns_to_labels_ratio,
      of "(''RATIO_OF_LYMPHOCYTES_AROUND_CARCINOMA_CELL_IN_CARCINOMA_20'', ''Lymphocyte'') \<in> set
     [(''RATIO_OF_CARCINOMA_CELLS_AROUND_CARCINOMA_CELL_IN_CARCINOMA_20'', ''Carcinoma cell''),
      (''RATIO_OF_LYMPHOCYTES_AROUND_CARCINOMA_CELL_IN_CARCINOMA_20'', ''Lymphocyte''),
      (''RATIO_OF_MACROPHAGES_AROUND_CARCINOMA_CELL_IN_CARCINOMA_20'', ''Macrophage''),
      (''RATIO_OF_GRANULOCYTES_AROUND_CARCINOMA_CELL_IN_CARCINOMA_20'', ''Granulocyte''),
      (''RATIO_OF_PLASMA_CELLS_AROUND_CARCINOMA_CELL_IN_CARCINOMA_20'', ''Plasma cell''),
      (''RATIO_OF_EPITHELIAL_CELLS_AROUND_CARCINOMA_CELL_IN_CARCINOMA_20'', ''Epithelial cell''),
      (''RATIO_OF_ENDOTHELIAL_CELLS_AROUND_CARCINOMA_CELL_IN_CARCINOMA_20'', ''Endothelial cell''),
      (''RATIO_OF_FIBROBLASTS_AROUND_CARCINOMA_CELL_IN_CARCINOMA_20'', ''Fibroblast''),
      (''RATIO_OF_OTHERS_AROUND_CARCINOMA_CELL_IN_CARCINOMA_20'', ''Other'')]"]
  have n1: "\<exists>cols. columns_to_labels cell_classes ''Carcinoma cell'' ''Carcinoma'' ''RATIO'' 20 = Inr cols \<and>
           (''RATIO_OF_LYMPHOCYTES_AROUND_CARCINOMA_CELL_IN_CARCINOMA_20'', ''Lymphocyte'')
             \<in> set cols"
    by (simp add: columns_to_labels_ratio)
  have n2: "str_format (neighborhood_column ''Carcinoma cell'' ''Carcinoma'' ''RATIO'' 20)
     [to_allcaps ''Lymphocyte''] =
     Inr ''RATIO_OF_LYMPHOCYTES_AROUND_CARCINOMA_CELL_IN_CARCINOMA_20''"
    by (rule label_round_trip [THEN conjunct2, THEN conjunct2, rule_format, OF n]) simp
  from t1 t2 c1 c2 n1 n2 show ?thesis by (intro conjI)
qed

text \<open>
  C7. For each of the three plot functions, called with a statistic of its catalog: when some
  constructed column name is not a column of the table, the call raises a KeyError naming the
  missing columns and returns no figure; when all of them are columns of the table, it returns
  a figure.
\<close>

theorem missing_column_raises:
  "(statistic \<in> fst ` set tissue_stat_dict \<and> tissue_cols tissue_classes statistic = Inr cols \<longrightarrow>
      (case [k \<leftarrow> map fst cols. k \<notin> labels df] of
         [] \<Rightarrow> \<exists>fig i'. plot_tissue_areas pm df statistic i = Inr (fig, i')
       | m # ms \<Rightarrow> plot_tissue_areas pm df statistic i = Inl (KeyError (m # ms)))) \<and>
   (statistic \<in> fst ` set cell_stat_dict \<and>
    cell_columns cell_classes tissue_type statistic = Inr cols \<longrightarrow>
      (case [k \<leftarrow> map fst cols. k \<notin> labels df] of
         [] \<Rightarrow> \<exists>fig i'. plot_cell_stat pm df tissue_type statistic i = Inr (fig, i')
       | m # ms \<Rightarrow> plot_cell_stat pm df tissue_type statistic i = Inl (KeyError (m # ms)))) \<and>
   (statistic \<in> fst ` set neighborhood_stat_dict \<and>
    columns_to_labels cell_classes cell_class_a roi statistic radius = Inr cols \<longrightarrow>
      (case [k \<leftarrow> map fst cols. k \<notin> labels df] of
         [] \<Rightarrow> \<exists>fig i'. plot_neighborhood_stat pm df cell_class_a roi statistic radius i =
                          Inr (fig, i')
       | m # ms \<Rightarrow> plot_neighborhood_stat pm df cell_class_a roi statistic radius i =
                     Inl (KeyError (m # ms))))"
proof (intro conjI impI; elim conjE)
  assume st: "statistic \<in> fst ` set tissue_stat_dict"
    and cols: "tissue_cols tissue_classes statistic = Inr cols"
  from getitem_catalog [OF st] obtain stat where stat: "getitem tissue_stat_dict statistic = Inr stat" ..
  show "case [k \<leftarrow> map fst cols. k \<notin> labels df] of
         [] \<Rightarrow> \<exists>fig i'. plot_tissue_areas pm df statistic i = Inr (fig, i')
       | m # ms \<Rightarrow> plot_tissue_areas pm df statistic i = Inl (KeyError (m # ms))"
  proof (cases "[k \<leftarrow> map fst cols. k \<notin> labels df]")
    case Nil
    from getitem_columns_present [OF Nil] obtain sub
      where "getitem_columns df (map fst cols) = Inr sub" ..
    with Nil cols stat show ?thesis
      by (simp add: plot_tissue_areas_def prod_eq_iff)
  next
    case (Cons m ms)
    from getitem_columns_missing [OF Cons] Cons cols show ?thesis
      by (simp add: plot_tissue_areas_def)
  qed
next
  assume st: "statistic \<in> fst ` set cell_stat_dict"
    and cols: "cell_columns cell_classes tissue_type statistic = Inr cols"
  from getitem_catalog [OF st] obtain stat where stat: "getitem cell_stat_dict statistic = Inr stat" ..
  show "case [k \<leftarrow> map fst cols. k \<notin> labels df] of
         [] \<Rightarrow> \<exists>fig i'. plot_cell_stat pm df tissue_type statistic i = Inr (fig, i')
       | m # ms \<Rightarrow> plot_cell_stat pm df tissue_type statistic i = Inl (KeyError (m # ms))"
  proof (cases "[k \<leftarrow> map fst cols. k \<notin> labels df]")
    case Nil
    from getitem_columns_present [OF Nil] obtain sub
      where "getitem_columns df (map fst cols) = Inr sub" ..
    with Nil cols stat show ?thesis
      by (simp add: plot_cell_stat_def prod_eq_iff)
  next
    case (Cons m ms)
    from getitem_columns_missing [OF Cons] Cons cols stat show ?thesis
      by (simp add: plot_cell_stat_def)
  qed
next
  assume st: "statistic \<in> fst ` set neighborhood_stat_dict"
    and cols: "columns_to_labels cell_classes cell_class_a roi statistic radius = Inr cols"
  from getitem_catalog [OF st] obtain stat
    where stat: "getitem neighborhood_stat_dict statistic = Inr stat" ..
  show "case [k \<leftarrow> map fst cols. k \<notin> labels df] of
         [] \<Rightarrow> \<exists>fig i'. plot_neighborhood_stat pm df cell_class_a roi statistic radius i =
                          Inr (fig, i')
       | m # ms \<Rightarrow> plot_neighborhood_stat pm df cell_class_a roi statistic radius i =
                     Inl (KeyError (m # ms))"
  proof (cases "[k \<leftarrow> map fst cols. k \<notin> labels df]")
    case Nil
    from getitem_columns_present [OF Nil] obtain sub
      where "getitem_columns df (map fst cols) = Inr sub" ..
    with Nil cols stat show ?thesis
      by (simp add: plot_neighborhood_stat_def prod_eq_iff)
  next
    case (Cons m ms)
    from getitem_columns_missing [OF Cons] Cons cols stat show ?thesis
      by (simp add: plot_neighborhood_stat_def)
  qed
qed

theorem missing_column_raises_witness:
  "''AREA'' \<in> fst ` set tissue_stat_dict \<and>
   tissue_cols tissue_classes ''AREA'' =
     Inr [(''AREA_CARCINOMA'', ''Carcinoma''), (''AREA_STROMA'', ''Stroma''),
          (''AREA_NECROSIS'', ''Necrosis''), (''AREA_BLOOD'', ''Blood''),
          (''AREA_VESSEL'', ''Vessel''), (''AREA_EPITHELIAL_TISSUE'', ''Epithelial tissue''),
          (''AREA_OTHER'', ''Other'')] \<and>
   plot_tissue_areas (PBool True)
     \<lparr>index_len = 1, columns = [(''AREA_CARCINOMA'', [1::int]), (''AREA_STROMA'', [2])]\<rparr>
     ''AREA'' 1 =
     Inl (KeyError [''AREA_NECROSIS'', ''AREA_BLOOD'', ''AREA_VESSEL'',
                    ''AREA_EPITHELIAL_TISSUE'', ''AREA_OTHER'']) \<and>
   (\<exists>fig i'. plot_tissue_areas (PBool True)
      \<lparr>index_len = 1,
       columns = [(''AREA_CARCINOMA'', [1::int]), (''AREA_STROMA'', [2]),
                  (''AREA_NECROSIS'', [3]), (''AREA_BLOOD'', [4]), (''AREA_VESSEL'', [5]),
                  (''AREA_EPITHELIAL_TISSUE'', [6]), (''AREA_OTHER'', [7])]\<rparr>
      ''AREA'' 1 = Inr (fig, i')) \<and>
   ''CELL_DENS'' \<in> fst ` set cell_stat_dict \<and>
   plot_cell_stat (PBool True) \<lparr>index_len = 0, columns = ([] :: (string \<times> int list) list)\<rparr>
     ''Stroma'' ''CELL_DENS'' 1 =
     Inl (KeyError [''CELL_DENS_CARCINOMA_CELL_STROMA'', ''CELL_DENS_LYMPHOCYTE_STROMA'',
                    ''CELL_DENS_MACROPHAGE_STROMA'', ''CELL_DENS_GRANULOCYTE_STROMA'',
                    ''CELL_DENS_PLASMA_CELL_STROMA'', ''CELL_DENS_EPITHELIAL_CELL_STROMA'',
                    ''CELL_DENS_ENDOTHELIAL_CELL_STROMA'', ''CELL_DENS_FIBROBLAST_STROMA'',
                    ''CELL_DENS_OTHER_STROMA'']) \<and>
   ''RATIO'' \<in> fst ` set neighborhood_stat_dict \<and>
   plot_neighborhood_stat (PBool True)
     \<lparr>index_len = 0, columns = ([] :: (string \<times> int list) list)\<rparr>
     ''Carcinoma cell'' ''Carcinoma'' ''RATIO'' 20 1 =
     Inl (KeyError
       [''RATIO_OF_CARCINOMA_CELLS_AROUND_CARCINOMA_CELL_IN_CARCINOMA_20'',
        ''RATIO_OF_LYMPHOCYTES_AROUND_CARCINOMA_CELL_IN_CARCINOMA_20'',
        ''RATIO_OF_MACROPHAGES_AROUND_CARCINOMA_CELL_IN_CARCINOMA_20'',
        ''RATIO_OF_GRANULOCYTES_AROUND_CARCINOMA_CELL_IN_CARCINOMA_20'',
        ''RATIO_OF_PLASMA_CELLS_AROUND_CARCINOMA_CELL_IN_CARCINOMA_20'',
        ''RATIO_OF_EPITHELIAL_CELLS_AROUND_CARCINOMA_CELL_IN_CARCINOMA_20'',
        ''RATIO_OF_ENDOTHELIAL_CELLS_AROUND_CARCINOMA_CELL_IN_CARCINOMA_20'',
        ''RATIO_OF_FIBROBLASTS_AROUND_CARCINOMA_CELL_IN_CARCINOMA_20'',
        ''RATIO_OF_OTHERS_AROUND_CARCINOMA_CELL_IN_CARCINOMA_20''])"
proof -
  have h1: "''AREA'' \<in> fst ` set tissue_stat_dict" by (simp add: tissue_stat_dict_def)
  have h2: "''CELL_DENS'' \<in> fst ` set cell_stat_dict" by (simp add: cell_stat_dict_def)
  have h3: "''RATIO'' \<in> fst ` set neighborhood_stat_dict"
    by (simp add: neighborhood_stat_dict_def)
  note t = missing_column_raises [THEN conjunct1, rule_format, OF conjI [OF h1 tissue_cols_area]]
  note c = missing_column_raises [THEN conjunct2, THEN conjunct1, rule_format,
      OF conjI [OF h2 cell_columns_dens_stroma]]
  note n = missing_column_raises [THEN conjunct2, THEN conjunct2, rule_format,
      OF conjI [OF h3 columns_to_labels_ratio]]
  have a: "plot_tissue_areas (PBool True)
     \<lparr>index_len = 1, columns = [(''AREA_CARCINOMA'', [1::int]), (''AREA_STROMA'', [2])]\<rparr>
     ''AREA'' 1 =
     Inl (KeyError [''AREA_NECROSIS'', ''AREA_BLOOD'', ''AREA_VESSEL'',
                    ''AREA_EPITHELIAL_TISSUE'', ''AREA_OTHER''])"
    using t [where df = "\<lparr>index_len = 1, columns = [(''AREA_CARCINOMA'', [1::int]), (''AREA_STROMA'', [2])]\<rparr>" and pm = "PBool True" and i = 1]
    by (simp add: labels_def)
  have b: "\<exists>fig i'. plot_tissue_areas (PBool True)
      \<lparr>index_len = 1,
       columns = [(''AREA_CARCINOMA'', [1::int]), (''AREA_STROMA'', [2]),
                  (''AREA_NECROSIS'', [3]), (''AREA_BLOOD'', [4]), (''AREA_VESSEL'', [5]),
                  (''AREA_EPITHELIAL_TISSUE'', [6]), (''AREA_OTHER'', [7])]\<rparr>
      ''AREA'' 1 = Inr (fig, i')"
    using t [where df = "\<lparr>index_len = 1,
       columns = [(''AREA_CARCINOMA'', [1::int]), (''AREA_STROMA'', [2]),
                  (''AREA_NECROSIS'', [3]), (''AREA_BLOOD'', [4]), (''AREA_VESSEL'', [5]),
                  (''AREA_EPITHELIAL_TISSUE'', [6]), (''AREA_OTHER'', [7])]\<rparr>" and pm = "PBool True" and i = 1]
    by (simp add: labels_def)
  have c': "plot_cell_stat (PBool True) \<lparr>index_len = 0, columns = ([] :: (string \<times> int list) list)\<rparr>
     ''Stroma'' ''CELL_DENS'' 1 =
     Inl (KeyError [''CELL_DENS_CARCINOMA_CELL_STROMA'', ''CELL_DENS_LYMPHOCYTE_STROMA'',
                    ''CELL_DENS_MACROPHAGE_STROMA'', ''CELL_DENS_GRANULOCYTE_STROMA'',
                    ''CELL_DENS_PLASMA_CELL_STROMA'', ''CELL_DENS_EPITHELIAL_CELL_STROMA'',
                    ''CELL_DENS_ENDOTHELIAL_CELL_STROMA'', ''CELL_DENS_FIBROBLAST_STROMA'',
                    ''CELL_DENS_OTHER_STROMA''])"
    using c [where df = "\<lparr>index_len = 0, columns = ([] :: (string \<times> int list) list)\<rparr>" and pm = "PBool True" and i = 1]
    by (simp add: labels_def)
  have n': "plot_neighborhood_stat (PBool True)
     \<lparr>index_len = 0, columns = ([] :: (string \<times> int list) list)\<rparr>
     ''Carcinoma cell'' ''Carcinoma'' ''RATIO'' 20 1 =
     Inl (KeyError
       [''RATIO_OF_CARCINOMA_CELLS_AROUND_CARCINOMA_CELL_IN_CARCINOMA_20'',
        ''RATIO_OF_LYMPHOCYTES_AROUND_CARCINOMA_CELL_IN_CARCINOMA_20'',
        ''RATIO_OF_MACROPHAGES_AROUND_CARCINOMA_CELL_IN_CARCINOMA_20'',
        ''RATIO_OF_GRANULOCYTES_AROUND_CARCINOMA_CELL_IN_CARCINOMA_20'',
        ''RATIO_OF_PLASMA_CELLS_AROUND_CARCINOMA_CELL_IN_CARCINOMA_20'',
        ''RATIO_OF_EPITHELIAL_CELLS_AROUND_CARCINOMA_CELL_IN_CARCINOMA_20'',
        ''RATIO_OF_ENDOTHELIAL_CELLS_AROUND_CARCINOMA_CELL_IN_CARCINOMA_20'',
        ''RATIO_OF_FIBROBLASTS_AROUND_CARCINOMA_CELL_IN_CARCINOMA_20'',
        ''RATIO_OF_OTHERS_AROUND_CARCINOMA_CELL_IN_CARCINOMA_20''])"
    using n [where df = "\<lparr>index_len = 0, columns = ([] :: (string \<times> int list) list)\<rparr>" and pm = "PBool True" and i = 1]
    by (simp add: labels_def)
  from h1 h2 h3 tissue_cols_area a b c' n' show ?thesis by (intro conjI)
qed

text \<open>
  C8, as stated: every tissue class is an option of the tissue-type and ROI dropdowns. It
  fails for Necrosis (and Blood), which both dropdowns remove from their options.
\<close>

theorem dropdown_omits_necrosis:
  "''Necrosis'' \<in> set tissue_classes \<and>
   ''Necrosis'' \<notin> options tissue_type_dropdown \<and>
   ''Necrosis'' \<notin> options roi_dropdown"
  by (simp add: tissue_classes_def tissue_type_dropdown_def roi_dropdown_def)

text \<open>
  C8, amended: every tissue class other than Necrosis and Blood is an option of the
  tissue-type dropdown and of the ROI dropdown, "All tissue types" is an option of the
  tissue-type dropdown, and the options of the cell-class dropdown are the cell classes.
\<close>

theorem dropdown_options:
  assumes "t \<in> set tissue_classes" and "t \<noteq> ''Necrosis''" and "t \<noteq> ''Blood''"
  shows "t \<in> options tissue_type_dropdown \<and> t \<in> options roi_dropdown \<and>
         tissue_all \<in> options tissue_type_dropdown \<and>
         options cell_class_a_dropdown = cell_classes"
  using assms
  by (simp add: tissue_type_dropdown_def roi_dropdown_def cell_class_a_dropdown_def tissue_all_def)

theorem dropdown_options_witness:
  "''Stroma'' \<in> set tissue_classes \<and> ''Stroma'' \<noteq> ''Necrosis'' \<and> ''Stroma'' \<noteq> ''Blood'' \<and>
   ''Stroma'' \<in> options tissue_type_dropdown \<and> ''Stroma'' \<in> options roi_dropdown"
proof -
  have a: "''Stroma'' \<in> set tissue_classes" by (simp add: tissue_classes_def)
  have b: "''Stroma'' \<noteq> ''Necrosis''" and c: "''Stroma'' \<noteq> ''Blood''" by simp_all
  show ?thesis using a b c dropdown_options [OF a b c] by simp
qed

text \<open>
  C9. For every statistic descriptor of the three catalogs, the y-axis label is the display
  name when there is no unit, and the display name followed by the unit in parentheses when
  there is one. (The code capitalises the display name first; every display name of the
  catalogs is its own capitalisation.)
\<close>

theorem y_label_of_catalog:
  assumes "stat \<in> set catalog_statistics"
  shows "y_label stat =
         (case unit stat of None \<Rightarrow> name stat | Some u \<Rightarrow> name stat @ '' ('' @ u @ '')'')"
  using capitalize_catalog [OF assms] by (simp add: y_label_def Let_def)

theorem y_label_of_catalog_witness:
  "\<lparr>name = ''Percentage of total number of cells'', unit = Some ''%''\<rparr> \<in> set catalog_statistics \<and>
   y_label \<lparr>name = ''Percentage of total number of cells'', unit = Some ''%''\<rparr> =
     ''Percentage of total number of cells (%)'' \<and>
   \<lparr>name = ''Cell count'', unit = None\<rparr> \<in> set catalog_statistics \<and>
   y_label \<lparr>name = ''Cell count'', unit = None\<rparr> = ''Cell count''"
proof -
  have a: "\<lparr>name = ''Percentage of total number of cells'', unit = Some ''%''\<rparr>
             \<in> set catalog_statistics"
    by (simp add: catalog_statistics_def cell_stat_dict_def)
  have b: "\<lparr>name = ''Cell count'', unit = None\<rparr> \<in> set catalog_statistics"
    by (simp add: catalog_statistics_def cell_stat_dict_def)
  show ?thesis
    using a b y_label_of_catalog [OF a] y_label_of_catalog [OF b] by simp
qed


end
